theory Spec2Isabelle
  imports Complex_Main
begin

section \<open>Beam analysis report generator: values and pandas primitives\<close>

text \<open>
  The program (class \<open>BeamReportGenerator\<close> of \<open>code.py\<close>) reads a table with the columns
  \<open>x\<close>, \<open>Shear force\<close> and \<open>Bending Moment\<close>, and concatenates a LaTeX document out of
  fixed text and formatted numbers.

  A cell of the table is a finite float64 number; it is modelled by its exact value, a
  rational. NaN appears only as the result of a reduction over an empty column. Negative
  zero, infinities and blank cells are not modelled, and the additions and subtractions
  of the chart ranges are exact.
\<close>

datatype py_error = AttributeError | TypeError | ValueError | KeyError | IndexError | OSError

datatype scalar = Num rat | NaN

record row =
  col_x :: rat
  col_shear_force :: rat
  col_bending_moment :: rat

type_synonym dataframe = "row list"

abbreviation BS :: char where
  "BS \<equiv> CHR 0x5C"

subsection \<open>Number formatting\<close>

definition digit_char :: "int \<Rightarrow> char" where
  "digit_char d =
     (if d = 0 then CHR ''0'' else if d = 1 then CHR ''1'' else if d = 2 then CHR ''2''
      else if d = 3 then CHR ''3'' else if d = 4 then CHR ''4'' else if d = 5 then CHR ''5''
      else if d = 6 then CHR ''6'' else if d = 7 then CHR ''7'' else if d = 8 then CHR ''8''
      else CHR ''9'')"

text \<open>The decimal digits of a non-negative integer, most significant first.\<close>

function int_digits :: "int \<Rightarrow> string" where
  "int_digits n =
     (if n < 10 then [digit_char n] else int_digits (n div 10) @ [digit_char (n mod 10)])"
  by pat_completeness auto
termination
  by (relation "measure nat") auto

declare int_digits.simps [simp del]

definition pad_digits :: "nat \<Rightarrow> int \<Rightarrow> string" where
  "pad_digits p k = replicate (p - length (int_digits k)) (CHR ''0'') @ int_digits k"

definition round_half_even :: "rat \<Rightarrow> int" where
  "round_half_even q =
     (let f = \<lfloor>q\<rfloor>; r = q - of_int f
      in if r < 1 / 2 then f else if 1 / 2 < r then f + 1 else if even f then f else f + 1)"

text \<open>
  \<open>fmt_f p q\<close> is Python's \<open>format(q, '.pf')\<close> of a float: the sign, the integer digits,
  and \<open>p\<close> fraction digits of the exact value rounded to the nearest multiple of
  \<open>10^-p\<close>, ties to even.
\<close>

definition fmt_f :: "nat \<Rightarrow> rat \<Rightarrow> string" where
  "fmt_f p q =
     (let m = round_half_even (\<bar>q\<bar> * 10 ^ p)
      in (if q < 0 then ''-'' else '''') @ int_digits (m div 10 ^ p) @
         (if p = 0 then '''' else ''.'' @ pad_digits p (m mod 10 ^ p)))"

definition fmt_scalar :: "nat \<Rightarrow> scalar \<Rightarrow> string" where
  "fmt_scalar p s = (case s of NaN \<Rightarrow> ''nan'' | Num q \<Rightarrow> fmt_f p q)"

text \<open>
  \<open>str()\<close> of a float (the shortest decimal text that reads back as the same binary64
  number) belongs to the floating-point library; the functions that use it take it as
  the parameter \<open>str_f\<close>.
\<close>

definition str_scalar :: "(rat \<Rightarrow> string) \<Rightarrow> scalar \<Rightarrow> string" where
  "str_scalar str_f s = (case s of NaN \<Rightarrow> ''nan'' | Num q \<Rightarrow> str_f q)"

definition scalar_add :: "scalar \<Rightarrow> rat \<Rightarrow> scalar" where
  "scalar_add s c = (case s of NaN \<Rightarrow> NaN | Num q \<Rightarrow> Num (q + c))"

definition scalar_sub :: "scalar \<Rightarrow> rat \<Rightarrow> scalar" where
  "scalar_sub s c = (case s of NaN \<Rightarrow> NaN | Num q \<Rightarrow> Num (q - c))"

definition scalar_div :: "scalar \<Rightarrow> rat \<Rightarrow> scalar" where
  "scalar_div s c = (case s of NaN \<Rightarrow> NaN | Num q \<Rightarrow> Num (q / c))"

text \<open>\<open>sep.join(items)\<close>\<close>

fun join_str :: "string \<Rightarrow> string list \<Rightarrow> string" where
  "join_str sep [] = ''''"
| "join_str sep [s] = s"
| "join_str sep (s # t # ts) = s @ sep @ join_str sep (t # ts)"

subsection \<open>The clock\<close>

text \<open>
  \<open>datetime.now()\<close> reads the wall clock; the value it returns is the argument \<open>now\<close>
  of the functions that call it. \<open>strftime_B_d_Y\<close> is \<open>strftime("%B %d, %Y")\<close> in
  the C locale: the English month name, the day on two digits, the year.
\<close>

record datetime =
  dt_year :: int
  dt_month :: int
  dt_day :: int
  dt_hour :: int
  dt_minute :: int
  dt_second :: int
  dt_microsecond :: int

definition month_name :: "int \<Rightarrow> string" where
  "month_name m =
     [''January'', ''February'', ''March'', ''April'', ''May'', ''June'', ''July'',
      ''August'', ''September'', ''October'', ''November'', ''December''] ! nat (m - 1)"

definition zero_pad2 :: "int \<Rightarrow> string" where
  "zero_pad2 d = (if d < 10 then ''0'' @ int_digits d else int_digits d)"

definition strftime_B_d_Y :: "datetime \<Rightarrow> string" where
  "strftime_B_d_Y now =
     month_name (dt_month now) @ '' '' @ zero_pad2 (dt_day now) @ '', '' @
     int_digits (dt_year now)"

subsection \<open>Column reductions of pandas\<close>

text \<open>\<open>Series.max()\<close> and \<open>Series.min()\<close>: NaN on an empty column.\<close>

definition series_max :: "rat list \<Rightarrow> scalar" where
  "series_max vs = (case vs of [] \<Rightarrow> NaN | v # ws \<Rightarrow> Num (fold max ws v))"

definition series_min :: "rat list \<Rightarrow> scalar" where
  "series_min vs = (case vs of [] \<Rightarrow> NaN | v # ws \<Rightarrow> Num (fold min ws v))"

text \<open>
  \<open>Series.idxmax()\<close> and \<open>Series.idxmin()\<close>: the label of the first occurrence of the
  extreme, \<open>ValueError\<close> on an empty column. The table comes from \<open>read_excel\<close>, so the
  labels are the row numbers \<open>0, 1, ...\<close>. The scan keeps the best value so far and its
  row number, and replaces them only by a strictly better value.
\<close>

fun argmax_scan :: "rat list \<Rightarrow> nat \<Rightarrow> rat \<Rightarrow> nat \<Rightarrow> nat" where
  "argmax_scan [] i b bi = bi"
| "argmax_scan (v # vs) i b bi =
     (if b < v then argmax_scan vs (Suc i) v i else argmax_scan vs (Suc i) b bi)"

fun argmin_scan :: "rat list \<Rightarrow> nat \<Rightarrow> rat \<Rightarrow> nat \<Rightarrow> nat" where
  "argmin_scan [] i b bi = bi"
| "argmin_scan (v # vs) i b bi =
     (if v < b then argmin_scan vs (Suc i) v i else argmin_scan vs (Suc i) b bi)"

definition idxmax :: "rat list \<Rightarrow> py_error + nat" where
  "idxmax vs = (case vs of [] \<Rightarrow> Inl ValueError | v # ws \<Rightarrow> Inr (argmax_scan ws 1 v 0))"

definition idxmin :: "rat list \<Rightarrow> py_error + nat" where
  "idxmin vs = (case vs of [] \<Rightarrow> Inl ValueError | v # ws \<Rightarrow> Inr (argmin_scan ws 1 v 0))"

text \<open>\<open>df.loc[label, 'x']\<close>: the \<open>x\<close> of the row with that label, \<open>KeyError\<close> without one.\<close>

definition loc_x :: "dataframe \<Rightarrow> nat \<Rightarrow> py_error + rat" where
  "loc_x df i = (if i < length df then Inr (col_x (df ! i)) else Inl KeyError)"

section \<open>The generator object and \<open>load_data\<close>\<close>

record generator =
  excel_path :: string
  beam_image_path :: string
  output_name :: string
  data :: "dataframe option"
  beam_length :: scalar

definition init_generator :: "string \<Rightarrow> string \<Rightarrow> string \<Rightarrow> generator" where
  "init_generator excel img out =
     \<lparr>excel_path = excel, beam_image_path = img, output_name = out,
      data = None, beam_length = Num 0\<rparr>"

text \<open>
  \<open>load_data\<close>: \<open>pd.read_excel\<close> is the outside world; its outcome (an exception, or the
  parsed table) is the argument \<open>read_excel\<close>. The two progress lines printed to the
  terminal are not part of the result.
\<close>

definition load_data :: "generator \<Rightarrow> py_error + dataframe \<Rightarrow> py_error + generator" where
  "load_data self read_excel =
     (case read_excel of
        Inl e \<Rightarrow> Inl e
      | Inr df \<Rightarrow> Inr (self\<lparr>data := Some df, beam_length := series_max (map col_x df)\<rparr>))"

section \<open>The fixed text of the report\<close>

text \<open>The literal of \<open>_create_preamble\<close> that starts at line 48 of \<open>code.py\<close>.\<close>

definition preamble_text :: string where
  "preamble_text =
   ''\<newline>'' @
   [BS] @ ''documentclass[12pt, a4paper]{report}\<newline>'' @
   ''\<newline>'' @
   ''% ============================================\<newline>'' @
   ''% PACKAGES\<newline>'' @
   ''% ============================================\<newline>'' @
   [BS] @ ''usepackage[utf8]{inputenc}\<newline>'' @
   [BS] @ ''usepackage[T1]{fontenc}\<newline>'' @
   [BS] @ ''usepackage{geometry}\<newline>'' @
   [BS] @ ''usepackage{graphicx}\<newline>'' @
   [BS] @ ''usepackage{booktabs}\<newline>'' @
   [BS] @ ''usepackage{array}\<newline>'' @
   [BS] @ ''usepackage{float}\<newline>'' @
   [BS] @ ''usepackage{xcolor}\<newline>'' @
   [BS] @ ''usepackage{colortbl}\<newline>'' @
   [BS] @ ''usepackage{tikz}\<newline>'' @
   [BS] @ ''usepackage{pgfplots}\<newline>'' @
   [BS] @ ''usepackage{hyperref}\<newline>'' @
   [BS] @ ''usepackage{fancyhdr}\<newline>'' @
   [BS] @ ''usepackage{titlesec}\<newline>'' @
   [BS] @ ''usepackage{tocloft}\<newline>'' @
   ''\<newline>'' @
   ''% ============================================\<newline>'' @
   ''% PAGE SETUP\<newline>'' @
   ''% ============================================\<newline>'' @
   [BS] @ ''geometry{\<newline>'' @
   ''    left=25mm,\<newline>'' @
   ''    right=25mm,\<newline>'' @
   ''    top=25mm,\<newline>'' @
   ''    bottom=25mm\<newline>'' @
   ''}\<newline>'' @
   ''\<newline>'' @
   ''% ============================================\<newline>'' @
   ''% PGFPLOTS CONFIGURATION\<newline>'' @
   ''% ============================================\<newline>'' @
   [BS] @ ''pgfplotsset{compat=1.18}\<newline>'' @
   ''\<newline>'' @
   ''% ============================================\<newline>'' @
   ''% COLOR DEFINITIONS\<newline>'' @
   ''% ============================================\<newline>'' @
   [BS] @ ''definecolor{shearpositive}{RGB}{70, 130, 180}    % Steel Blue\<newline>'' @
   [BS] @ ''definecolor{shearnegative}{RGB}{220, 20, 60}     % Crimson Red\<newline>'' @
   [BS] @ ''definecolor{momentpositive}{RGB}{34, 139, 34}    % Forest Green\<newline>'' @
   [BS] @ ''definecolor{momentnegative}{RGB}{255, 140, 0}    % Dark Orange\<newline>'' @
   [BS] @ ''definecolor{titleblue}{RGB}{0, 51, 102}          % Dark Blue\<newline>'' @
   ''\<newline>'' @
   ''% ============================================\<newline>'' @
   ''% HYPERREF SETUP\<newline>'' @
   ''% ============================================\<newline>'' @
   [BS] @ ''hypersetup{\<newline>'' @
   ''    colorlinks=true,\<newline>'' @
   ''    linkcolor=titleblue,\<newline>'' @
   ''    filecolor=magenta,      \<newline>'' @
   ''    urlcolor=cyan,\<newline>'' @
   ''    pdftitle={Beam Analysis Report},\<newline>'' @
   ''    pdfauthor={FOSSEE Project},\<newline>'' @
   ''}\<newline>'' @
   ''\<newline>'' @
   ''% ============================================\<newline>'' @
   ''% HEADER AND FOOTER\<newline>'' @
   ''% ============================================\<newline>'' @
   [BS] @ ''pagestyle{fancy}\<newline>'' @
   [BS] @ ''fancyhf{}\<newline>'' @
   [BS] @ ''fancyhead[L]{'' @ [BS] @ ''small Beam Analysis Report}\<newline>'' @
   [BS] @ ''fancyhead[R]{'' @ [BS] @ ''small '' @ [BS] @ ''leftmark}\<newline>'' @
   [BS] @ ''fancyfoot[C]{'' @ [BS] @ ''thepage}\<newline>'' @
   [BS] @ ''renewcommand{'' @ [BS] @ ''headrulewidth}{0.4pt}\<newline>'' @
   [BS] @ ''renewcommand{'' @ [BS] @ ''footrulewidth}{0.4pt}\<newline>'' @
   ''\<newline>'' @
   ''% ============================================\<newline>'' @
   ''% TITLE FORMATTING\<newline>'' @
   ''% ============================================\<newline>'' @
   [BS] @ ''titleformat{'' @ [BS] @ ''chapter}[display]\<newline>'' @
   ''  {'' @ [BS] @ ''normalfont'' @ [BS] @ ''huge'' @ [BS] @ ''bfseries'' @ [BS] @ ''color{titleblue}}\<newline>'' @
   ''  {'' @ [BS] @ ''chaptertitlename'' @ [BS] @ '' '' @ [BS] @ ''thechapter}{20pt}{'' @ [BS] @ ''Huge}\<newline>'' @
   ''\<newline>'' @
   [BS] @ ''begin{document}\<newline>''"

text \<open>The literal of \<open>_create_title_page\<close> that starts at line 137 of \<open>code.py\<close>.\<close>

definition title_page_head :: string where
  "title_page_head =
   ''\<newline>'' @
   ''% ============================================\<newline>'' @
   ''% TITLE PAGE\<newline>'' @
   ''% ============================================\<newline>'' @
   [BS] @ ''begin{titlepage}\<newline>'' @
   ''    '' @ [BS] @ ''centering\<newline>'' @
   ''    \<newline>'' @
   ''    '' @ [BS] @ ''vspace*{2cm}\<newline>'' @
   ''    \<newline>'' @
   ''    % Title\<newline>'' @
   ''    {'' @ [BS] @ ''Huge'' @ [BS] @ ''bfseries'' @ [BS] @ ''color{titleblue} Structural Analysis Report '' @ [BS] @ ''par}\<newline>'' @
   ''    \<newline>'' @
   ''    '' @ [BS] @ ''vspace{1cm}\<newline>'' @
   ''    \<newline>'' @
   ''    {'' @ [BS] @ ''LARGE'' @ [BS] @ ''bfseries Simply Supported Beam Analysis '' @ [BS] @ ''par}\<newline>'' @
   ''    \<newline>'' @
   ''    '' @ [BS] @ ''vspace{2cm}\<newline>'' @
   ''    \<newline>'' @
   ''    % Decorative line\<newline>'' @
   ''    '' @ [BS] @ ''noindent'' @ [BS] @ ''rule{'' @ [BS] @ ''textwidth}{2pt}\<newline>'' @
   ''    \<newline>'' @
   ''    '' @ [BS] @ ''vspace{2cm}\<newline>'' @
   ''    \<newline>'' @
   ''    % Project Information\<newline>'' @
   ''    {'' @ [BS] @ ''Large'' @ [BS] @ ''textbf{Project:} FOSSEE Beam Analysis '' @ [BS] @ ''par}\<newline>'' @
   ''    \<newline>'' @
   ''    '' @ [BS] @ ''vspace{0.5cm}\<newline>'' @
   ''    \<newline>'' @
   ''    {'' @ [BS] @ ''Large'' @ [BS] @ ''textbf{Document Type:} Engineering Analysis Report '' @ [BS] @ ''par}\<newline>'' @
   ''    \<newline>'' @
   ''    '' @ [BS] @ ''vspace{0.5cm}\<newline>'' @
   ''    \<newline>'' @
   ''    {'' @ [BS] @ ''Large'' @ [BS] @ ''textbf{Analysis Method:} Shear Force '' @ [BS] @ ''& Bending Moment Analysis '' @ [BS] @ ''par}\<newline>'' @
   ''    \<newline>'' @
   ''    '' @ [BS] @ ''vspace{3cm}\<newline>'' @
   ''    \<newline>'' @
   ''    % Date\<newline>'' @
   ''    {'' @ [BS] @ ''large'' @ [BS] @ ''textbf{Date:} ''"

text \<open>The literal of \<open>_create_title_page\<close> that starts at line 174 of \<open>code.py\<close>.\<close>

definition title_page_tail :: string where
  "title_page_tail =
   '' '' @ [BS] @ ''par}\<newline>'' @
   ''    \<newline>'' @
   ''    '' @ [BS] @ ''vfill\<newline>'' @
   ''    \<newline>'' @
   ''    % Footer line\<newline>'' @
   ''    '' @ [BS] @ ''noindent'' @ [BS] @ ''rule{'' @ [BS] @ ''textwidth}{1pt}\<newline>'' @
   ''    \<newline>'' @
   ''    '' @ [BS] @ ''vspace{0.5cm}\<newline>'' @
   ''    \<newline>'' @
   ''    {'' @ [BS] @ ''small Generated using Python and '' @ [BS] @ ''LaTeX{} '' @ [BS] @ ''par}\<newline>'' @
   ''    \<newline>'' @
   [BS] @ ''end{titlepage}\<newline>''"

text \<open>The literal of \<open>_create_toc\<close> that starts at line 196 of \<open>code.py\<close>.\<close>

definition toc_text :: string where
  "toc_text =
   ''\<newline>'' @
   ''% ============================================\<newline>'' @
   ''% TABLE OF CONTENTS\<newline>'' @
   ''% ============================================\<newline>'' @
   [BS] @ ''tableofcontents\<newline>'' @
   [BS] @ ''thispagestyle{empty}\<newline>'' @
   [BS] @ ''newpage\<newline>''"

text \<open>The literal of \<open>_create_introduction\<close> that starts at line 216 of \<open>code.py\<close>.\<close>

definition introduction_head :: string where
  "introduction_head =
   ''\<newline>'' @
   ''% ============================================\<newline>'' @
   ''% INTRODUCTION\<newline>'' @
   ''% ============================================\<newline>'' @
   [BS] @ ''chapter{Introduction}\<newline>'' @
   ''\<newline>'' @
   [BS] @ ''section{Overview}\<newline>'' @
   ''\<newline>'' @
   ''This report presents a comprehensive structural analysis of a simply supported beam \<newline>'' @
   ''subjected to a uniformly distributed load. The analysis includes the calculation and \<newline>'' @
   ''visualization of internal forces, specifically the Shear Force Diagram (SFD) and \<newline>'' @
   ''Bending Moment Diagram (BMD).\<newline>'' @
   ''\<newline>'' @
   [BS] @ ''section{Simply Supported Beam}\<newline>'' @
   ''\<newline>'' @
   ''A simply supported beam is a fundamental structural element that rests on two \<newline>'' @
   ''supports --- a pinned support at one end and a roller support at the other. This \<newline>'' @
   ''configuration allows the beam to:\<newline>'' @
   ''\<newline>'' @
   [BS] @ ''begin{itemize}\<newline>'' @
   ''    '' @ [BS] @ ''item Resist vertical loads through reaction forces at the supports\<newline>'' @
   ''    '' @ [BS] @ ''item Freely expand or contract due to thermal effects (roller support)\<newline>'' @
   ''    '' @ [BS] @ ''item Rotate freely at both support points\<newline>'' @
   [BS] @ ''end{itemize}\<newline>'' @
   ''\<newline>'' @
   [BS] @ ''subsection{Beam Configuration}\<newline>'' @
   ''\<newline>'' @
   ''The beam under analysis has the following configuration:\<newline>'' @
   ''\<newline>'' @
   [BS] @ ''begin{figure}[H]\<newline>'' @
   ''    '' @ [BS] @ ''centering\<newline>'' @
   ''    '' @ [BS] @ ''includegraphics[width=0.85'' @ [BS] @ ''textwidth]{''"

text \<open>The literal of \<open>_create_introduction\<close> that starts at line 247 of \<open>code.py\<close>.\<close>

definition introduction_mid :: string where
  "introduction_mid =
   ''}\<newline>'' @
   ''    '' @ [BS] @ ''caption{Simply Supported Beam with Pinned and Roller Supports}\<newline>'' @
   ''    '' @ [BS] @ ''label{fig:beam_diagram}\<newline>'' @
   [BS] @ ''end{figure}\<newline>'' @
   ''\<newline>'' @
   [BS] @ ''textbf{Beam Parameters:}\<newline>'' @
   [BS] @ ''begin{itemize}\<newline>'' @
   ''    '' @ [BS] @ ''item '' @ [BS] @ ''textbf{Total Length:} ''"

text \<open>The literal of \<open>_create_introduction\<close> that starts at line 254 of \<open>code.py\<close>.\<close>

definition introduction_tail :: string where
  "introduction_tail =
   '' meters\<newline>'' @
   ''    '' @ [BS] @ ''item '' @ [BS] @ ''textbf{Left Support:} Pinned support (restricts horizontal and vertical displacement)\<newline>'' @
   ''    '' @ [BS] @ ''item '' @ [BS] @ ''textbf{Right Support:} Roller support (restricts only vertical displacement)\<newline>'' @
   ''    '' @ [BS] @ ''item '' @ [BS] @ ''textbf{Loading:} Uniformly distributed load\<newline>'' @
   [BS] @ ''end{itemize}\<newline>'' @
   ''\<newline>'' @
   [BS] @ ''section{Analysis Objectives}\<newline>'' @
   ''\<newline>'' @
   ''The objectives of this structural analysis are:\<newline>'' @
   ''\<newline>'' @
   [BS] @ ''begin{enumerate}\<newline>'' @
   ''    '' @ [BS] @ ''item Calculate shear forces at critical points along the beam\<newline>'' @
   ''    '' @ [BS] @ ''item Calculate bending moments at critical points along the beam\<newline>'' @
   ''    '' @ [BS] @ ''item Generate Shear Force Diagram (SFD)\<newline>'' @
   ''    '' @ [BS] @ ''item Generate Bending Moment Diagram (BMD)\<newline>'' @
   ''    '' @ [BS] @ ''item Identify maximum shear force and bending moment locations\<newline>'' @
   [BS] @ ''end{enumerate}\<newline>'' @
   ''\<newline>'' @
   [BS] @ ''newpage\<newline>''"

text \<open>The literal of \<open>_create_data_table\<close> that starts at line 287 of \<open>code.py\<close>.\<close>

definition data_table_head :: string where
  "data_table_head =
   ''\<newline>'' @
   ''% ============================================\<newline>'' @
   ''% INPUT DATA\<newline>'' @
   ''% ============================================\<newline>'' @
   [BS] @ ''chapter{Input Data}\<newline>'' @
   ''\<newline>'' @
   [BS] @ ''section{Force and Moment Data}\<newline>'' @
   ''\<newline>'' @
   ''The following table presents the calculated values of shear force and bending \<newline>'' @
   ''moment at various positions along the beam. These values were obtained from \<newline>'' @
   ''structural analysis calculations.\<newline>'' @
   ''\<newline>'' @
   [BS] @ ''begin{table}[H]\<newline>'' @
   ''    '' @ [BS] @ ''centering\<newline>'' @
   ''    '' @ [BS] @ ''caption{Shear Force and Bending Moment Values Along the Beam}\<newline>'' @
   ''    '' @ [BS] @ ''label{tab:force_data}\<newline>'' @
   ''    '' @ [BS] @ ''vspace{0.5cm}\<newline>'' @
   ''    '' @ [BS] @ ''begin{tabular}{|c|c|c|}\<newline>'' @
   ''        '' @ [BS] @ ''hline\<newline>'' @
   ''        '' @ [BS] @ ''rowcolor{titleblue!20}\<newline>'' @
   ''        '' @ [BS] @ ''textbf{Position (x)} & '' @ [BS] @ ''textbf{Shear Force (V)} & '' @ [BS] @ ''textbf{Bending Moment (M)} '' @ [BS] @ [BS] @ ''\<newline>'' @
   ''        '' @ [BS] @ ''textbf{[meters]} & '' @ [BS] @ ''textbf{[kN]} & '' @ [BS] @ ''textbf{[kN$'' @ [BS] @ ''cdot$m]} '' @ [BS] @ [BS] @ ''\<newline>'' @
   ''        '' @ [BS] @ ''hline\<newline>''"

text \<open>The literal of \<open>_create_data_table\<close> that starts at line 323 of \<open>code.py\<close>.\<close>

definition data_table_mid :: string where
  "data_table_mid =
   ''    '' @ [BS] @ ''end{tabular}\<newline>'' @
   [BS] @ ''end{table}\<newline>'' @
   ''\<newline>'' @
   [BS] @ ''section{Data Interpretation}\<newline>'' @
   ''\<newline>'' @
   ''From the table above, we can observe:\<newline>'' @
   ''\<newline>'' @
   [BS] @ ''begin{itemize}\<newline>'' @
   ''    '' @ [BS] @ ''item '' @ [BS] @ ''textbf{Maximum Positive Shear Force:} ''"

text \<open>The literal of \<open>_create_sfd_diagram\<close> that starts at line 366 of \<open>code.py\<close>.\<close>

definition sfd_head :: string where
  "sfd_head =
   ''\<newline>'' @
   ''% ============================================\<newline>'' @
   ''% SHEAR FORCE DIAGRAM\<newline>'' @
   ''% ============================================\<newline>'' @
   [BS] @ ''chapter{Analysis Results}\<newline>'' @
   ''\<newline>'' @
   [BS] @ ''section{Shear Force Diagram (SFD)}\<newline>'' @
   ''\<newline>'' @
   ''The Shear Force Diagram shows the variation of internal shear force along the \<newline>'' @
   ''length of the beam. Positive shear forces are shown in '' @ [BS] @ ''textcolor{shearpositive}{'' @ [BS] @ ''textbf{blue}} \<newline>'' @
   ''and negative shear forces are shown in '' @ [BS] @ ''textcolor{shearnegative}{'' @ [BS] @ ''textbf{red}}.\<newline>'' @
   ''\<newline>'' @
   [BS] @ ''begin{figure}[H]\<newline>'' @
   ''    '' @ [BS] @ ''centering\<newline>'' @
   ''    '' @ [BS] @ ''begin{tikzpicture}\<newline>'' @
   ''        '' @ [BS] @ ''begin{axis}[\<newline>'' @
   ''            width=0.95'' @ [BS] @ ''textwidth,\<newline>'' @
   ''            height=8cm,\<newline>'' @
   ''            xlabel={Position along beam (m)},\<newline>'' @
   ''            ylabel={Shear Force (kN)},\<newline>'' @
   ''            title={'' @ [BS] @ ''textbf{Shear Force Diagram}},\<newline>'' @
   ''            xmin=-0.5,\<newline>'' @
   ''            xmax=''"

text \<open>The literal of \<open>_create_sfd_diagram\<close> that starts at line 391 of \<open>code.py\<close>.\<close>

definition sfd_axis_options :: string where
  "sfd_axis_options =
   ''},\<newline>'' @
   ''            grid=both,\<newline>'' @
   ''            grid style={line width=0.2pt, draw=gray!30},\<newline>'' @
   ''            major grid style={line width=0.4pt, draw=gray!50},\<newline>'' @
   ''            axis lines=middle,\<newline>'' @
   ''            axis line style={->, thick},\<newline>'' @
   ''            legend style={\<newline>'' @
   ''                at={(0.98,0.98)},\<newline>'' @
   ''                anchor=north east,\<newline>'' @
   ''                draw=black,\<newline>'' @
   ''                fill=white,\<newline>'' @
   ''                font='' @ [BS] @ ''small\<newline>'' @
   ''            },\<newline>'' @
   ''            every axis plot/.append style={thick},\<newline>'' @
   ''            ybar,\<newline>'' @
   ''            bar width=8pt,\<newline>'' @
   ''            enlarge x limits=0.05,\<newline>'' @
   ''        ]\<newline>'' @
   ''        \<newline>'' @
   ''        % Positive Shear Force (Blue)\<newline>'' @
   ''        '' @ [BS] @ ''addplot[\<newline>'' @
   ''            fill=shearpositive,\<newline>'' @
   ''            draw=shearpositive!80!black,\<newline>'' @
   ''        ] coordinates {\<newline>''"

text \<open>The literal of \<open>_create_sfd_diagram\<close> that starts at line 415 of \<open>code.py\<close>.\<close>

definition sfd_between_plots :: string where
  "sfd_between_plots =
   ''        };\<newline>'' @
   ''        '' @ [BS] @ ''addlegendentry{Positive Shear}\<newline>'' @
   ''        \<newline>'' @
   ''        % Negative Shear Force (Red)\<newline>'' @
   ''        '' @ [BS] @ ''addplot[\<newline>'' @
   ''            fill=shearnegative,\<newline>'' @
   ''            draw=shearnegative!80!black,\<newline>'' @
   ''        ] coordinates {\<newline>''"

text \<open>The literal of \<open>_create_sfd_diagram\<close> that starts at line 423 of \<open>code.py\<close>.\<close>

definition sfd_after_plots :: string where
  "sfd_after_plots =
   ''        };\<newline>'' @
   ''        '' @ [BS] @ ''addlegendentry{Negative Shear}\<newline>'' @
   ''        \<newline>'' @
   ''        % Zero line\<newline>'' @
   ''        '' @ [BS] @ ''draw[black, thick, dashed] (axis cs:-0.5,0) -- (axis cs:''"

text \<open>The literal of \<open>_create_sfd_diagram\<close> that starts at line 427 of \<open>code.py\<close>.\<close>

definition sfd_tail :: string where
  "sfd_tail =
   '',0);\<newline>'' @
   ''        \<newline>'' @
   ''        '' @ [BS] @ ''end{axis}\<newline>'' @
   ''    '' @ [BS] @ ''end{tikzpicture}\<newline>'' @
   ''    '' @ [BS] @ ''caption{Shear Force Diagram showing the distribution of shear force along the beam}\<newline>'' @
   ''    '' @ [BS] @ ''label{fig:sfd}\<newline>'' @
   [BS] @ ''end{figure}\<newline>'' @
   ''\<newline>'' @
   [BS] @ ''subsection{SFD Observations}\<newline>'' @
   ''\<newline>'' @
   [BS] @ ''begin{itemize}\<newline>'' @
   ''    '' @ [BS] @ ''item The shear force is maximum positive at the left support\<newline>'' @
   ''    '' @ [BS] @ ''item The shear force decreases linearly under uniformly distributed load\<newline>'' @
   ''    '' @ [BS] @ ''item The shear force crosses zero at the midpoint of the beam\<newline>'' @
   ''    '' @ [BS] @ ''item The shear force is maximum negative at the right support\<newline>'' @
   ''    '' @ [BS] @ ''item The slope of the SFD equals the intensity of the distributed load\<newline>'' @
   [BS] @ ''end{itemize}\<newline>'' @
   ''\<newline>'' @
   [BS] @ ''newpage\<newline>''"

text \<open>The literal of \<open>_create_bmd_diagram\<close> that starts at line 465 of \<open>code.py\<close>.\<close>

definition bmd_head :: string where
  "bmd_head =
   ''\<newline>'' @
   [BS] @ ''section{Bending Moment Diagram (BMD)}\<newline>'' @
   ''\<newline>'' @
   ''The Bending Moment Diagram shows the variation of internal bending moment along \<newline>'' @
   ''the length of the beam. Positive (sagging) moments are shown in \<newline>'' @
   [BS] @ ''textcolor{momentpositive}{'' @ [BS] @ ''textbf{green}}.\<newline>'' @
   ''\<newline>'' @
   [BS] @ ''begin{figure}[H]\<newline>'' @
   ''    '' @ [BS] @ ''centering\<newline>'' @
   ''    '' @ [BS] @ ''begin{tikzpicture}\<newline>'' @
   ''        '' @ [BS] @ ''begin{axis}[\<newline>'' @
   ''            width=0.95'' @ [BS] @ ''textwidth,\<newline>'' @
   ''            height=8cm,\<newline>'' @
   ''            xlabel={Position along beam (m)},\<newline>'' @
   ''            ylabel={Bending Moment (kN$'' @ [BS] @ ''cdot$m)},\<newline>'' @
   ''            title={'' @ [BS] @ ''textbf{Bending Moment Diagram}},\<newline>'' @
   ''            xmin=-0.5,\<newline>'' @
   ''            xmax=''"

text \<open>The literal of \<open>_create_bmd_diagram\<close> that starts at line 485 of \<open>code.py\<close>.\<close>

definition bmd_axis_options :: string where
  "bmd_axis_options =
   ''},\<newline>'' @
   ''            grid=both,\<newline>'' @
   ''            grid style={line width=0.2pt, draw=gray!30},\<newline>'' @
   ''            major grid style={line width=0.4pt, draw=gray!50},\<newline>'' @
   ''            axis lines=middle,\<newline>'' @
   ''            axis line style={->, thick},\<newline>'' @
   ''            legend style={\<newline>'' @
   ''                at={(0.98,0.98)},\<newline>'' @
   ''                anchor=north east,\<newline>'' @
   ''                draw=black,\<newline>'' @
   ''                fill=white,\<newline>'' @
   ''                font='' @ [BS] @ ''small\<newline>'' @
   ''            },\<newline>'' @
   ''            every axis plot/.append style={thick},\<newline>'' @
   ''            ybar,\<newline>'' @
   ''            bar width=8pt,\<newline>'' @
   ''            enlarge x limits=0.05,\<newline>'' @
   ''        ]\<newline>'' @
   ''        \<newline>'' @
   ''        % Bending Moment (Green)\<newline>'' @
   ''        '' @ [BS] @ ''addplot[\<newline>'' @
   ''            fill=momentpositive,\<newline>'' @
   ''            draw=momentpositive!80!black,\<newline>'' @
   ''        ] coordinates {\<newline>''"

text \<open>The literal of \<open>_create_bmd_diagram\<close> that starts at line 509 of \<open>code.py\<close>.\<close>

definition bmd_after_plot :: string where
  "bmd_after_plot =
   ''        };\<newline>'' @
   ''        '' @ [BS] @ ''addlegendentry{Bending Moment (Sagging)}\<newline>'' @
   ''        \<newline>'' @
   ''        % Zero line\<newline>'' @
   ''        '' @ [BS] @ ''draw[black, thick, dashed] (axis cs:-0.5,0) -- (axis cs:''"

text \<open>The literal of \<open>_create_bmd_diagram\<close> that starts at line 513 of \<open>code.py\<close>.\<close>

definition bmd_observations :: string where
  "bmd_observations =
   '',0);\<newline>'' @
   ''        \<newline>'' @
   ''        '' @ [BS] @ ''end{axis}\<newline>'' @
   ''    '' @ [BS] @ ''end{tikzpicture}\<newline>'' @
   ''    '' @ [BS] @ ''caption{Bending Moment Diagram showing the distribution of bending moment along the beam}\<newline>'' @
   ''    '' @ [BS] @ ''label{fig:bmd}\<newline>'' @
   [BS] @ ''end{figure}\<newline>'' @
   ''\<newline>'' @
   [BS] @ ''subsection{BMD Observations}\<newline>'' @
   ''\<newline>'' @
   [BS] @ ''begin{itemize}\<newline>'' @
   ''    '' @ [BS] @ ''item The bending moment is zero at both supports (simply supported conditions)\<newline>'' @
   ''    '' @ [BS] @ ''item The bending moment is maximum at the center of the beam (x = ''"

text \<open>The literal of \<open>_create_bmd_diagram\<close> that starts at line 526 of \<open>code.py\<close>.\<close>

definition bmd_tail :: string where
  "bmd_tail =
   '' kN$'' @ [BS] @ ''cdot$m\<newline>'' @
   ''    '' @ [BS] @ ''item The BMD follows a parabolic curve for uniformly distributed loads\<newline>'' @
   ''    '' @ [BS] @ ''item The slope of the BMD at any point equals the shear force at that point\<newline>'' @
   [BS] @ ''end{itemize}\<newline>'' @
   ''\<newline>'' @
   [BS] @ ''newpage\<newline>''"

text \<open>The literal of \<open>_create_conclusion\<close> that starts at line 545 of \<open>code.py\<close>.\<close>

definition conclusion_head :: string where
  "conclusion_head =
   ''\<newline>'' @
   ''% ============================================\<newline>'' @
   ''% CONCLUSION\<newline>'' @
   ''% ============================================\<newline>'' @
   [BS] @ ''chapter{Conclusion}\<newline>'' @
   ''\<newline>'' @
   [BS] @ ''section{Summary of Results}\<newline>'' @
   ''\<newline>'' @
   ''This structural analysis report has presented a comprehensive analysis of a simply \<newline>'' @
   ''supported beam with the following key findings:\<newline>'' @
   ''\<newline>'' @
   [BS] @ ''begin{table}[H]\<newline>'' @
   ''    '' @ [BS] @ ''centering\<newline>'' @
   ''    '' @ [BS] @ ''caption{Summary of Critical Values}\<newline>'' @
   ''    '' @ [BS] @ ''vspace{0.5cm}\<newline>'' @
   ''    '' @ [BS] @ ''begin{tabular}{|l|c|c|}\<newline>'' @
   ''        '' @ [BS] @ ''hline\<newline>'' @
   ''        '' @ [BS] @ ''rowcolor{titleblue!20}\<newline>'' @
   ''        '' @ [BS] @ ''textbf{Parameter} & '' @ [BS] @ ''textbf{Value} & '' @ [BS] @ ''textbf{Location} '' @ [BS] @ [BS] @ ''\<newline>'' @
   ''        '' @ [BS] @ ''hline\<newline>'' @
   ''        Maximum Positive Shear & ''"

text \<open>The literal of \<open>_create_conclusion\<close> that starts at line 569 of \<open>code.py\<close>.\<close>

definition conclusion_tail :: string where
  "conclusion_tail =
   '' m '' @ [BS] @ [BS] @ ''\<newline>'' @
   ''        '' @ [BS] @ ''hline\<newline>'' @
   ''    '' @ [BS] @ ''end{tabular}\<newline>'' @
   [BS] @ ''end{table}\<newline>'' @
   ''\<newline>'' @
   [BS] @ ''section{Design Recommendations}\<newline>'' @
   ''\<newline>'' @
   ''Based on the analysis results, the following recommendations are made for the \<newline>'' @
   ''design of this simply supported beam:\<newline>'' @
   ''\<newline>'' @
   [BS] @ ''begin{enumerate}\<newline>'' @
   ''    '' @ [BS] @ ''item '' @ [BS] @ ''textbf{Shear Reinforcement:} Provide adequate shear reinforcement near \<newline>'' @
   ''          the supports where shear forces are maximum.\<newline>'' @
   ''    \<newline>'' @
   ''    '' @ [BS] @ ''item '' @ [BS] @ ''textbf{Flexural Reinforcement:} Provide maximum flexural reinforcement \<newline>'' @
   ''          at the midspan where the bending moment is maximum.\<newline>'' @
   ''    \<newline>'' @
   ''    '' @ [BS] @ ''item '' @ [BS] @ ''textbf{Deflection Check:} Verify that the beam deflection under service \<newline>'' @
   ''          loads is within acceptable limits.\<newline>'' @
   ''    \<newline>'' @
   ''    '' @ [BS] @ ''item '' @ [BS] @ ''textbf{Support Design:} Design the supports to safely transfer the \<newline>'' @
   ''          reaction forces to the foundation.\<newline>'' @
   [BS] @ ''end{enumerate}\<newline>'' @
   ''\<newline>'' @
   [BS] @ ''section{Report Generation}\<newline>'' @
   ''\<newline>'' @
   ''This report was automatically generated using:\<newline>'' @
   [BS] @ ''begin{itemize}\<newline>'' @
   ''    '' @ [BS] @ ''item Python for data processing and LaTeX generation\<newline>'' @
   ''    '' @ [BS] @ ''item TikZ/PGFPlots for vector graphics diagrams\<newline>'' @
   ''    '' @ [BS] @ ''item '' @ [BS] @ ''LaTeX{} for professional document formatting\<newline>'' @
   [BS] @ ''end{itemize}\<newline>'' @
   ''\<newline>'' @
   [BS] @ ''end{document}\<newline>''"

section \<open>The sections of the report\<close>

definition create_preamble :: string where
  "create_preamble = preamble_text"

text \<open>\<open>_create_title_page\<close> calls \<open>datetime.now()\<close>; \<open>now\<close> is what the clock returns.\<close>

definition create_title_page :: "datetime \<Rightarrow> string" where
  "create_title_page now =
     (let current_date = strftime_B_d_Y now
      in title_page_head @ current_date @ title_page_tail)"

definition create_toc :: string where
  "create_toc = toc_text"

definition create_introduction :: "generator \<Rightarrow> string" where
  "create_introduction self =
     (let image_path = map (\<lambda>c. if c = BS then CHR ''/'' else c) (beam_image_path self)
      in introduction_head @ image_path @ introduction_mid @
         fmt_scalar 1 (beam_length self) @ introduction_tail)"

subsection \<open>\<open>_create_data_table\<close>\<close>

text \<open>The loop over \<open>iterrows()\<close>: two lines are appended to \<open>table_section\<close> per row.\<close>

fun add_table_rows :: "string \<Rightarrow> dataframe \<Rightarrow> string" where
  "add_table_rows table_section [] = table_section"
| "add_table_rows table_section (r # rs) =
     add_table_rows
       ((table_section @
           ''        '' @ fmt_f 1 (col_x r) @ '' & '' @ fmt_f 2 (col_shear_force r) @ '' & '' @
           fmt_f 2 (col_bending_moment r) @ '' '' @ [BS, BS] @ ''\<newline>'') @
        ''        '' @ [BS] @ ''hline\<newline>'')
       rs"

text \<open>\<open>self.data.loc[col.idxmax(), 'x']\<close> and \<open>self.data.loc[col.idxmin(), 'x']\<close>\<close>

definition x_at_idxmax :: "dataframe \<Rightarrow> rat list \<Rightarrow> py_error + rat" where
  "x_at_idxmax df col = (case idxmax col of Inl e \<Rightarrow> Inl e | Inr i \<Rightarrow> loc_x df i)"

definition x_at_idxmin :: "dataframe \<Rightarrow> rat list \<Rightarrow> py_error + rat" where
  "x_at_idxmin df col = (case idxmin col of Inl e \<Rightarrow> Inl e | Inr i \<Rightarrow> loc_x df i)"

text \<open>
  The replacement field of line 334:
  \<open>self.data.loc[self.data['Shear force'] == 0, 'x'].values[0]
     if 0 in self.data['Shear force'].values else 'N/A'\<close>, without a format specification.
\<close>

definition zero_shear_location :: "(rat \<Rightarrow> string) \<Rightarrow> dataframe \<Rightarrow> py_error + string" where
  "zero_shear_location str_f df =
     (if 0 \<in> set (map col_shear_force df)
      then (case map col_x (filter (\<lambda>r. col_shear_force r = 0) df) of
              [] \<Rightarrow> Inl IndexError
            | v # vs \<Rightarrow> Inr (str_f v))
      else Inr ''N/A'')"

definition create_data_table :: "(rat \<Rightarrow> string) \<Rightarrow> generator \<Rightarrow> py_error + string" where
  "create_data_table str_f self =
     (case data self of
        None \<Rightarrow> Inl AttributeError
      | Some df \<Rightarrow>
          let table_section = add_table_rows data_table_head df
          in (case x_at_idxmax df (map col_shear_force df) of Inl e \<Rightarrow> Inl e | Inr x_max_shear \<Rightarrow>
             (case x_at_idxmin df (map col_shear_force df) of Inl e \<Rightarrow> Inl e | Inr x_min_shear \<Rightarrow>
             (case x_at_idxmax df (map col_bending_moment df) of Inl e \<Rightarrow> Inl e | Inr x_max_moment \<Rightarrow>
             (case zero_shear_location str_f df of Inl e \<Rightarrow> Inl e | Inr zero_shear \<Rightarrow>
             Inr (table_section @ data_table_mid @
                  fmt_scalar 2 (series_max (map col_shear_force df)) @ '' kN (at x = '' @
                  fmt_f 1 x_max_shear @
                  '' m)\<newline>'' @
                  ''    '' @ [BS] @ ''item '' @ [BS] @ ''textbf{Maximum Negative Shear Force:} '' @
                  fmt_scalar 2 (series_min (map col_shear_force df)) @ '' kN (at x = '' @
                  fmt_f 1 x_min_shear @
                  '' m)\<newline>'' @
                  ''    '' @ [BS] @ ''item '' @ [BS] @ ''textbf{Maximum Bending Moment:} '' @
                  fmt_scalar 2 (series_max (map col_bending_moment df)) @
                  '' kN$'' @ [BS] @ ''cdot$m (at x = '' @
                  fmt_f 1 x_max_moment @
                  '' m)\<newline>'' @
                  ''    '' @ [BS] @ ''item '' @ [BS] @ ''textbf{Zero Shear Location:} x = '' @
                  zero_shear @
                  '' m (point of maximum moment)\<newline>'' @
                  [BS] @ ''end{itemize}\<newline>'' @
                  ''\<newline>'' @
                  [BS] @ ''newpage\<newline>''))))))"

subsection \<open>\<open>_create_sfd_diagram\<close>\<close>

text \<open>The loop that builds \<open>positive_coords\<close> and \<open>negative_coords\<close>.\<close>

fun sfd_coords :: "(rat \<Rightarrow> string) \<Rightarrow> string \<times> string \<Rightarrow> dataframe \<Rightarrow> string \<times> string" where
  "sfd_coords str_f (positive_coords, negative_coords) [] = (positive_coords, negative_coords)"
| "sfd_coords str_f (positive_coords, negative_coords) (r # rs) =
     (let x_val = col_x r; shear = col_shear_force r
      in if shear \<ge> 0
         then sfd_coords str_f
                (positive_coords @ ''            ('' @ str_f x_val @ '', '' @ str_f shear @ '')\<newline>'',
                 negative_coords @ ''            ('' @ str_f x_val @ '', 0)\<newline>'') rs
         else sfd_coords str_f
                (positive_coords @ ''            ('' @ str_f x_val @ '', 0)\<newline>'',
                 negative_coords @ ''            ('' @ str_f x_val @ '', '' @ str_f shear @ '')\<newline>'') rs)"

definition create_sfd_diagram :: "(rat \<Rightarrow> string) \<Rightarrow> generator \<Rightarrow> py_error + string" where
  "create_sfd_diagram str_f self =
     (case data self of
        None \<Rightarrow> Inl AttributeError
      | Some df \<Rightarrow>
          (case sfd_coords str_f ('''', '''') df of
             (positive_coords, negative_coords) \<Rightarrow>
               Inr (sfd_head @
                    str_scalar str_f (scalar_add (beam_length self) (1 / 2)) @
                    '',\<newline>'' @
                    ''            ymin='' @
                    str_scalar str_f (scalar_sub (series_min (map col_shear_force df)) 10) @
                    '',\<newline>'' @
                    ''            ymax='' @
                    str_scalar str_f (scalar_add (series_max (map col_shear_force df)) 10) @
                    '',\<newline>'' @
                    ''            xtick={'' @
                    join_str '','' (map str_f (map col_x df)) @
                    sfd_axis_options @ positive_coords @ sfd_between_plots @ negative_coords @
                    sfd_after_plots @
                    str_scalar str_f (scalar_add (beam_length self) (1 / 2)) @
                    sfd_tail)))"

subsection \<open>\<open>_create_bmd_diagram\<close>\<close>

fun bmd_coords :: "(rat \<Rightarrow> string) \<Rightarrow> string \<Rightarrow> dataframe \<Rightarrow> string" where
  "bmd_coords str_f coords [] = coords"
| "bmd_coords str_f coords (r # rs) =
     (let x_val = col_x r; moment = col_bending_moment r
      in bmd_coords str_f
           (coords @ ''            ('' @ str_f x_val @ '', '' @ str_f moment @ '')\<newline>'') rs)"

definition create_bmd_diagram :: "(rat \<Rightarrow> string) \<Rightarrow> generator \<Rightarrow> py_error + string" where
  "create_bmd_diagram str_f self =
     (case data self of
        None \<Rightarrow> Inl AttributeError
      | Some df \<Rightarrow>
          (let coords = bmd_coords str_f '''' df
           in Inr (bmd_head @
                   str_scalar str_f (scalar_add (beam_length self) (1 / 2)) @
                   '',\<newline>'' @
                   ''            ymin=-10,\<newline>'' @
                   ''            ymax='' @
                   str_scalar str_f (scalar_add (series_max (map col_bending_moment df)) 20) @
                   '',\<newline>'' @
                   ''            xtick={'' @
                   join_str '','' (map str_f (map col_x df)) @
                   bmd_axis_options @ coords @ bmd_after_plot @
                   str_scalar str_f (scalar_add (beam_length self) (1 / 2)) @
                   bmd_observations @
                   fmt_scalar 1 (scalar_div (beam_length self) 2) @
                   '' m)\<newline>'' @
                   ''    '' @ [BS] @ ''item Maximum bending moment value: '' @
                   fmt_scalar 2 (series_max (map col_bending_moment df)) @
                   bmd_tail)))"

subsection \<open>\<open>_create_conclusion\<close>\<close>

text \<open>
  \<open>max_shear\<close> (the largest absolute shear) is computed and never used. The three
  locations of the summary table are the literal \<open>0.0\<close>, the beam length and half the
  beam length.
\<close>

definition create_conclusion :: "generator \<Rightarrow> py_error + string" where
  "create_conclusion self =
     (case data self of
        None \<Rightarrow> Inl TypeError
      | Some df \<Rightarrow>
          (let max_shear = series_max (map abs (map col_shear_force df));
               max_moment = series_max (map col_bending_moment df)
           in Inr (conclusion_head @
                   fmt_scalar 2 (series_max (map col_shear_force df)) @
                   '' kN & x = 0.0 m '' @ [BS] @ [BS] @ ''\<newline>'' @
                   ''        '' @ [BS] @ ''hline\<newline>'' @
                   ''        Maximum Negative Shear & '' @
                   fmt_scalar 2 (series_min (map col_shear_force df)) @
                   '' kN & x = '' @
                   fmt_scalar 1 (beam_length self) @
                   '' m '' @ [BS] @ [BS] @ ''\<newline>'' @
                   ''        '' @ [BS] @ ''hline\<newline>'' @
                   ''        Maximum Bending Moment & '' @
                   fmt_scalar 2 max_moment @
                   '' kN$'' @ [BS] @ ''cdot$m & x = '' @
                   fmt_scalar 1 (scalar_div (beam_length self) 2) @
                   conclusion_tail)))"

subsection \<open>\<open>generate_report\<close>, steps 1 and 2\<close>

text \<open>
  \<open>generate_report\<close> loads the data and concatenates the eight sections into
  \<open>latex_content\<close>. Writing the file, running \<open>pdflatex\<close> and deleting the auxiliary
  files (steps 3 and 4) act on the file system only and are not modelled.
\<close>

definition generate_report_latex ::
  "datetime \<Rightarrow> (rat \<Rightarrow> string) \<Rightarrow> generator \<Rightarrow> py_error + dataframe \<Rightarrow> py_error + string" where
  "generate_report_latex now str_f self0 read_excel =
     (case load_data self0 read_excel of Inl e \<Rightarrow> Inl e | Inr self \<Rightarrow>
     (let latex_content = '''';
          latex_content = latex_content @ create_preamble;
          latex_content = latex_content @ create_title_page now;
          latex_content = latex_content @ create_toc;
          latex_content = latex_content @ create_introduction self
      in (case create_data_table str_f self of Inl e \<Rightarrow> Inl e | Inr data_table \<Rightarrow>
         (case create_sfd_diagram str_f self of Inl e \<Rightarrow> Inl e | Inr sfd \<Rightarrow>
         (case create_bmd_diagram str_f self of Inl e \<Rightarrow> Inl e | Inr bmd \<Rightarrow>
         (case create_conclusion self of Inl e \<Rightarrow> Inl e | Inr conclusion \<Rightarrow>
         Inr (latex_content @ data_table @ sfd @ bmd @ conclusion)))))))"

section \<open>Vocabulary of the specification\<close>

text \<open>
  The definitions of this section follow the words of the specification, not the code;
  the theorems compare them with the functions above.
\<close>

text \<open>A text has \<open>p\<close> decimal places: exactly \<open>p\<close> characters follow its first point, all digits.\<close>

definition is_digit :: "char \<Rightarrow> bool" where
  "is_digit c = (c \<in> set ''0123456789'')"

definition fraction_part :: "string \<Rightarrow> string" where
  "fraction_part s = drop 1 (dropWhile (\<lambda>c. c \<noteq> CHR ''.'') s)"

definition has_decimals :: "nat \<Rightarrow> string \<Rightarrow> bool" where
  "has_decimals p s = (length (fraction_part s) = p \<and> list_all is_digit (fraction_part s))"

text \<open>
  One row of the serialized data table: the position to 1 decimal place, the shear force
  and the bending moment to 2, and the rule under the row.
\<close>

definition table_row :: "row \<Rightarrow> string" where
  "table_row r =
     ''        '' @ fmt_f 1 (col_x r) @ '' & '' @ fmt_f 2 (col_shear_force r) @ '' & '' @
     fmt_f 2 (col_bending_moment r) @ '' '' @ [BS, BS] @ ''\<newline>'' @
     ''        '' @ [BS] @ ''hline\<newline>''"

text \<open>
  The two series of the shear chart: a point is a position with either the shear of the
  row (\<open>Some\<close>) or the constant zero (\<open>None\<close>), which the report writes as \<open>0\<close>.
\<close>

definition positive_series :: "dataframe \<Rightarrow> (rat \<times> rat option) list" where
  "positive_series df =
     map (\<lambda>r. (col_x r, if col_shear_force r \<ge> 0 then Some (col_shear_force r) else None)) df"

definition negative_series :: "dataframe \<Rightarrow> (rat \<times> rat option) list" where
  "negative_series df =
     map (\<lambda>r. (col_x r, if col_shear_force r < 0 then Some (col_shear_force r) else None)) df"

definition ordinate :: "rat \<times> rat option \<Rightarrow> rat" where
  "ordinate pt = (case snd pt of None \<Rightarrow> 0 | Some v \<Rightarrow> v)"

definition coord_line :: "(rat \<Rightarrow> string) \<Rightarrow> rat \<times> rat option \<Rightarrow> string" where
  "coord_line str_f pt =
     ''            ('' @ str_f (fst pt) @ '', '' @
     (case snd pt of None \<Rightarrow> ''0'' | Some v \<Rightarrow> str_f v) @ '')\<newline>''"

section \<open>Properties of the pandas primitives\<close>

lemma fold_max_Max: "fold max ws (v::rat) = Max (set (v # ws))"
  by (simp only: Max.set_eq_fold)

lemma fold_min_Min: "fold min ws (v::rat) = Min (set (v # ws))"
  by (simp only: Min.set_eq_fold)

lemma series_max_nonempty: "vs \<noteq> [] \<Longrightarrow> series_max vs = Num (Max (set vs))"
  by (cases vs) (simp_all add: series_max_def fold_max_Max del: set_simps)

lemma series_min_nonempty: "vs \<noteq> [] \<Longrightarrow> series_min vs = Num (Min (set vs))"
  by (cases vs) (simp_all add: series_min_def fold_min_Min del: set_simps)

lemma argmax_scan_first:
  "length pre = i \<Longrightarrow> bi < i \<Longrightarrow> pre ! bi = b \<Longrightarrow> \<forall>j<i. pre ! j \<le> b \<Longrightarrow>
   \<forall>j<bi. pre ! j < b \<Longrightarrow>
   argmax_scan vs i b bi < length (pre @ vs) \<and>
   (\<forall>j<length (pre @ vs). (pre @ vs) ! j \<le> (pre @ vs) ! argmax_scan vs i b bi) \<and>
   (\<forall>j<argmax_scan vs i b bi. (pre @ vs) ! j < (pre @ vs) ! argmax_scan vs i b bi)"
proof (induction vs arbitrary: pre i b bi)
  case Nil
  then show ?case by auto
next
  case (Cons v vs)
  show ?case
  proof (cases "b < v")
    case True
    have "argmax_scan vs (Suc i) v i < length ((pre @ [v]) @ vs) \<and>
      (\<forall>j<length ((pre @ [v]) @ vs). ((pre @ [v]) @ vs) ! j \<le> ((pre @ [v]) @ vs) ! argmax_scan vs (Suc i) v i) \<and>
      (\<forall>j<argmax_scan vs (Suc i) v i. ((pre @ [v]) @ vs) ! j < ((pre @ [v]) @ vs) ! argmax_scan vs (Suc i) v i)"
    proof (rule Cons.IH)
      show "length (pre @ [v]) = Suc i" using Cons.prems by simp
      show "i < Suc i" by simp
      show "(pre @ [v]) ! i = v" by (metis Cons.prems(1) nth_append_length)
      show "\<forall>j<Suc i. (pre @ [v]) ! j \<le> v"
        using Cons.prems True by (auto simp: nth_append less_Suc_eq intro: order.trans less_imp_le)
      show "\<forall>j<i. (pre @ [v]) ! j < v"
        using Cons.prems True by (auto simp: nth_append intro: le_less_trans)
    qed
    then show ?thesis using True by simp
  next
    case False
    have "argmax_scan vs (Suc i) b bi < length ((pre @ [v]) @ vs) \<and>
      (\<forall>j<length ((pre @ [v]) @ vs). ((pre @ [v]) @ vs) ! j \<le> ((pre @ [v]) @ vs) ! argmax_scan vs (Suc i) b bi) \<and>
      (\<forall>j<argmax_scan vs (Suc i) b bi. ((pre @ [v]) @ vs) ! j < ((pre @ [v]) @ vs) ! argmax_scan vs (Suc i) b bi)"
    proof (rule Cons.IH)
      show "length (pre @ [v]) = Suc i" using Cons.prems by simp
      show "bi < Suc i" using Cons.prems by simp
      show "(pre @ [v]) ! bi = b" using Cons.prems by (simp add: nth_append)
      show "\<forall>j<Suc i. (pre @ [v]) ! j \<le> b"
        using Cons.prems False by (auto simp: nth_append less_Suc_eq)
      show "\<forall>j<bi. (pre @ [v]) ! j < b"
        using Cons.prems by (auto simp: nth_append)
    qed
    then show ?thesis using False by simp
  qed
qed

lemma argmin_scan_first:
  "length pre = i \<Longrightarrow> bi < i \<Longrightarrow> pre ! bi = b \<Longrightarrow> \<forall>j<i. b \<le> pre ! j \<Longrightarrow>
   \<forall>j<bi. b < pre ! j \<Longrightarrow>
   argmin_scan vs i b bi < length (pre @ vs) \<and>
   (\<forall>j<length (pre @ vs). (pre @ vs) ! argmin_scan vs i b bi \<le> (pre @ vs) ! j) \<and>
   (\<forall>j<argmin_scan vs i b bi. (pre @ vs) ! argmin_scan vs i b bi < (pre @ vs) ! j)"
proof (induction vs arbitrary: pre i b bi)
  case Nil
  then show ?case by auto
next
  case (Cons v vs)
  show ?case
  proof (cases "v < b")
    case True
    have "argmin_scan vs (Suc i) v i < length ((pre @ [v]) @ vs) \<and>
      (\<forall>j<length ((pre @ [v]) @ vs). ((pre @ [v]) @ vs) ! argmin_scan vs (Suc i) v i \<le> ((pre @ [v]) @ vs) ! j) \<and>
      (\<forall>j<argmin_scan vs (Suc i) v i. ((pre @ [v]) @ vs) ! argmin_scan vs (Suc i) v i < ((pre @ [v]) @ vs) ! j)"
    proof (rule Cons.IH)
      show "length (pre @ [v]) = Suc i" using Cons.prems by simp
      show "i < Suc i" by simp
      show "(pre @ [v]) ! i = v" by (metis Cons.prems(1) nth_append_length)
      show "\<forall>j<Suc i. v \<le> (pre @ [v]) ! j"
        using Cons.prems True by (auto simp: nth_append less_Suc_eq intro: order.trans less_imp_le)
      show "\<forall>j<i. v < (pre @ [v]) ! j"
        using Cons.prems True by (auto simp: nth_append intro: less_le_trans)
    qed
    then show ?thesis using True by simp
  next
    case False
    have "argmin_scan vs (Suc i) b bi < length ((pre @ [v]) @ vs) \<and>
      (\<forall>j<length ((pre @ [v]) @ vs). ((pre @ [v]) @ vs) ! argmin_scan vs (Suc i) b bi \<le> ((pre @ [v]) @ vs) ! j) \<and>
      (\<forall>j<argmin_scan vs (Suc i) b bi. ((pre @ [v]) @ vs) ! argmin_scan vs (Suc i) b bi < ((pre @ [v]) @ vs) ! j)"
    proof (rule Cons.IH)
      show "length (pre @ [v]) = Suc i" using Cons.prems by simp
      show "bi < Suc i" using Cons.prems by simp
      show "(pre @ [v]) ! bi = b" using Cons.prems by (simp add: nth_append)
      show "\<forall>j<Suc i. b \<le> (pre @ [v]) ! j"
        using Cons.prems False by (auto simp: nth_append less_Suc_eq)
      show "\<forall>j<bi. b < (pre @ [v]) ! j"
        using Cons.prems by (auto simp: nth_append)
    qed
    then show ?thesis using False by simp
  qed
qed

lemma idxmax_first:
  assumes "vs \<noteq> []"
  shows "\<exists>k. idxmax vs = Inr k \<and> k < length vs \<and> (\<forall>j<length vs. vs ! j \<le> vs ! k) \<and>
             (\<forall>j<k. vs ! j < vs ! k)"
proof -
  from assms obtain v ws where vs: "vs = v # ws" by (cases vs) auto
  have "argmax_scan ws 1 v 0 < length ([v] @ ws) \<and>
        (\<forall>j<length ([v] @ ws). ([v] @ ws) ! j \<le> ([v] @ ws) ! argmax_scan ws 1 v 0) \<and>
        (\<forall>j<argmax_scan ws 1 v 0. ([v] @ ws) ! j < ([v] @ ws) ! argmax_scan ws 1 v 0)"
    by (rule argmax_scan_first) auto
  then show ?thesis by (simp add: vs idxmax_def)
qed

lemma idxmin_first:
  assumes "vs \<noteq> []"
  shows "\<exists>k. idxmin vs = Inr k \<and> k < length vs \<and> (\<forall>j<length vs. vs ! k \<le> vs ! j) \<and>
             (\<forall>j<k. vs ! k < vs ! j)"
proof -
  from assms obtain v ws where vs: "vs = v # ws" by (cases vs) auto
  have "argmin_scan ws 1 v 0 < length ([v] @ ws) \<and>
        (\<forall>j<length ([v] @ ws). ([v] @ ws) ! argmin_scan ws 1 v 0 \<le> ([v] @ ws) ! j) \<and>
        (\<forall>j<argmin_scan ws 1 v 0. ([v] @ ws) ! argmin_scan ws 1 v 0 < ([v] @ ws) ! j)"
    by (rule argmin_scan_first) auto
  then show ?thesis by (simp add: vs idxmin_def)
qed

lemma Max_nth:
  "k < length vs \<Longrightarrow> \<forall>j<length vs. vs ! j \<le> vs ! k \<Longrightarrow> Max (set vs) = (vs ! k :: rat)"
  by (rule Max_eqI) (auto simp: in_set_conv_nth)

lemma Min_nth:
  "k < length vs \<Longrightarrow> \<forall>j<length vs. vs ! k \<le> vs ! j \<Longrightarrow> Min (set vs) = (vs ! k :: rat)"
  by (rule Min_eqI) (auto simp: in_set_conv_nth)

lemma x_at_idxmax_first:
  assumes "df \<noteq> []"
  shows "\<exists>k<length df. x_at_idxmax df (map f df) = Inr (col_x (df ! k)) \<and>
           series_max (map f df) = Num (f (df ! k)) \<and>
           (\<forall>j<length df. f (df ! j) \<le> f (df ! k)) \<and> (\<forall>j<k. f (df ! j) < f (df ! k))"
proof -
  have ne: "map f df \<noteq> []" using assms by simp
  from idxmax_first[OF ne] obtain k where k: "idxmax (map f df) = Inr k" "k < length df"
    "\<forall>j<length (map f df). map f df ! j \<le> map f df ! k" "\<forall>j<k. map f df ! j < map f df ! k"
    by auto
  have "Max (set (map f df)) = map f df ! k"
    by (rule Max_nth) (use k in auto)
  then have "series_max (map f df) = Num (f (df ! k))"
    using k(2) by (simp add: series_max_nonempty[OF ne] del: set_map)
  moreover have "x_at_idxmax df (map f df) = Inr (col_x (df ! k))"
    using k by (simp add: x_at_idxmax_def loc_x_def)
  ultimately show ?thesis using k by auto
qed

lemma x_at_idxmin_first:
  assumes "df \<noteq> []"
  shows "\<exists>k<length df. x_at_idxmin df (map f df) = Inr (col_x (df ! k)) \<and>
           series_min (map f df) = Num (f (df ! k)) \<and>
           (\<forall>j<length df. f (df ! k) \<le> f (df ! j)) \<and> (\<forall>j<k. f (df ! k) < f (df ! j))"
proof -
  have ne: "map f df \<noteq> []" using assms by simp
  from idxmin_first[OF ne] obtain k where k: "idxmin (map f df) = Inr k" "k < length df"
    "\<forall>j<length (map f df). map f df ! k \<le> map f df ! j" "\<forall>j<k. map f df ! k < map f df ! j"
    by auto
  have "Min (set (map f df)) = map f df ! k"
    by (rule Min_nth) (use k in auto)
  then have "series_min (map f df) = Num (f (df ! k))"
    using k(2) by (simp add: series_min_nonempty[OF ne] del: set_map)
  moreover have "x_at_idxmin df (map f df) = Inr (col_x (df ! k))"
    using k by (simp add: x_at_idxmin_def loc_x_def)
  ultimately show ?thesis using k by auto
qed

section \<open>Properties of the number formatting\<close>

lemma is_digit_digit_char: "is_digit (digit_char d)"
  by (simp add: is_digit_def digit_char_def)
lemma digit_char_not_point: "digit_char d \<noteq> CHR ''.''"
  by (simp add: digit_char_def)

lemma int_digits_all_digits: "list_all is_digit (int_digits n)"
proof (induction n rule: int_digits.induct)
  case (1 n)
  show ?case
  proof (cases "n < 10")
    case True
    have "int_digits n = [digit_char n]" using True by (subst int_digits.simps) simp
    then show ?thesis by (simp add: is_digit_digit_char)
  next
    case False
    have "int_digits n = int_digits (n div 10) @ [digit_char (n mod 10)]"
      using False by (subst int_digits.simps) simp
    with 1 False show ?thesis by (simp add: is_digit_digit_char)
  qed
qed

lemma int_digits_no_point: "c \<in> set (int_digits n) \<Longrightarrow> c \<noteq> CHR ''.''"
proof
  assume c: "c \<in> set (int_digits n)" and p: "c = CHR ''.''"
  from int_digits_all_digits[of n] c have "is_digit c" by (simp add: list_all_iff)
  with p show False by (simp add: is_digit_def)
qed

lemma length_int_digits: "0 < p \<Longrightarrow> k < 10 ^ p \<Longrightarrow> length (int_digits k) \<le> p"
proof (induction p arbitrary: k)
  case 0
  then show ?case by simp
next
  case (Suc p)
  show ?case
  proof (cases "k < 10")
    case True
    have "int_digits k = [digit_char k]" using True by (subst int_digits.simps) simp
    then show ?thesis by simp
  next
    case False
    have p: "0 < p"
    proof (rule ccontr)
      assume "\<not> 0 < p"
      then have "p = 0" by simp
      with Suc.prems False show False by simp
    qed
    have "k < 10 * 10 ^ p" using Suc.prems by simp
    moreover have "k = 10 * (k div 10) + k mod 10" by simp
    moreover have "0 \<le> k mod 10" by simp
    ultimately have "k div 10 < 10 ^ p" by linarith
    from Suc.IH[OF p this] have "length (int_digits (k div 10)) \<le> p" .
    moreover have "int_digits k = int_digits (k div 10) @ [digit_char (k mod 10)]"
      using False by (subst int_digits.simps) simp
    ultimately show ?thesis by simp
  qed
qed

lemma pad_digits_decimals:
  assumes "0 < p" and "k < 10 ^ p"
  shows "length (pad_digits p k) = p" and "list_all is_digit (pad_digits p k)"
proof -
  have "length (int_digits k) \<le> p" by (rule length_int_digits[OF assms])
  then show "length (pad_digits p k) = p" by (simp add: pad_digits_def)
  have "is_digit (CHR ''0'')" by (simp add: is_digit_def)
  then show "list_all is_digit (pad_digits p k)"
    using int_digits_all_digits[of k] by (auto simp: pad_digits_def list_all_iff)
qed

lemma fraction_part_fmt_f:
  assumes "0 < p"
  shows "fraction_part (fmt_f p q) = pad_digits p (round_half_even (\<bar>q\<bar> * 10 ^ p) mod 10 ^ p)"
proof -
  define m where "m = round_half_even (\<bar>q\<bar> * 10 ^ p)"
  define pre where "pre = (if q < 0 then ''-'' else '''') @ int_digits (m div 10 ^ p)"
  have pre: "\<And>c. c \<in> set pre \<Longrightarrow> c \<noteq> CHR ''.''"
    unfolding pre_def using int_digits_no_point by (auto split: if_splits)
  have "fmt_f p q = pre @ CHR ''.'' # pad_digits p (m mod 10 ^ p)"
    using assms by (simp add: fmt_f_def Let_def m_def pre_def)
  moreover have "dropWhile (\<lambda>c. c \<noteq> CHR ''.'') (pre @ CHR ''.'' # pad_digits p (m mod 10 ^ p))
      = dropWhile (\<lambda>c. c \<noteq> CHR ''.'') (CHR ''.'' # pad_digits p (m mod 10 ^ p))"
    by (rule dropWhile_append2) (rule pre)
  ultimately show ?thesis by (simp add: fraction_part_def m_def)
qed

lemma fmt_f_has_decimals: 
  assumes p: "0 < p"
  shows "has_decimals p (fmt_f p q)"
proof -
  have "round_half_even (\<bar>q\<bar> * 10 ^ p) mod 10 ^ p < (10::int) ^ p" by simp
  from pad_digits_decimals[OF p this] show ?thesis
    by (simp add: has_decimals_def fraction_part_fmt_f[OF p])
qed

section \<open>Properties of the data table section\<close>

lemma zero_shear_location_first:
  "find (\<lambda>r. col_shear_force r = 0) df = Some r \<Longrightarrow>
   zero_shear_location str_f df = Inr (str_f (col_x r))"
  by (induction df) (auto simp: zero_shear_location_def split: if_splits)

lemma zero_shear_location_none:
  "find (\<lambda>r. col_shear_force r = 0) df = None \<Longrightarrow> zero_shear_location str_f df = Inr ''N/A''"
  by (auto simp: zero_shear_location_def find_None_iff)

lemma zero_shear_location_total: "\<exists>z. zero_shear_location str_f df = Inr z"
  by (cases "find (\<lambda>r. col_shear_force r = 0) df")
     (auto simp: zero_shear_location_first zero_shear_location_none)

lemma create_data_table_text:
  assumes "data self = Some df" and "df \<noteq> []"
  shows "\<exists>i<length df. \<exists>j<length df. \<exists>k<length df. \<exists>z.
    (\<forall>n<length df. col_shear_force (df ! n) \<le> col_shear_force (df ! i)) \<and>
    (\<forall>n<i. col_shear_force (df ! n) < col_shear_force (df ! i)) \<and>
    (\<forall>n<length df. col_shear_force (df ! j) \<le> col_shear_force (df ! n)) \<and>
    (\<forall>n<j. col_shear_force (df ! j) < col_shear_force (df ! n)) \<and>
    (\<forall>n<length df. col_bending_moment (df ! n) \<le> col_bending_moment (df ! k)) \<and>
    (\<forall>n<k. col_bending_moment (df ! n) < col_bending_moment (df ! k)) \<and>
    zero_shear_location str_f df = Inr z \<and>
    create_data_table str_f self =
      Inr (add_table_rows data_table_head df @ data_table_mid @
           fmt_f 2 (col_shear_force (df ! i)) @ '' kN (at x = '' @ fmt_f 1 (col_x (df ! i)) @
           '' m)\<newline>'' @
           ''    '' @ [BS] @ ''item '' @ [BS] @ ''textbf{Maximum Negative Shear Force:} '' @
           fmt_f 2 (col_shear_force (df ! j)) @ '' kN (at x = '' @ fmt_f 1 (col_x (df ! j)) @
           '' m)\<newline>'' @
           ''    '' @ [BS] @ ''item '' @ [BS] @ ''textbf{Maximum Bending Moment:} '' @
           fmt_f 2 (col_bending_moment (df ! k)) @ '' kN$'' @ [BS] @ ''cdot$m (at x = '' @
           fmt_f 1 (col_x (df ! k)) @
           '' m)\<newline>'' @
           ''    '' @ [BS] @ ''item '' @ [BS] @ ''textbf{Zero Shear Location:} x = '' @
           z @
           '' m (point of maximum moment)\<newline>'' @
           [BS] @ ''end{itemize}\<newline>'' @
           ''\<newline>'' @
           [BS] @ ''newpage\<newline>'')"
proof -
  from x_at_idxmax_first[OF assms(2), of col_shear_force] obtain i where i:
    "i < length df" "x_at_idxmax df (map col_shear_force df) = Inr (col_x (df ! i))"
    "series_max (map col_shear_force df) = Num (col_shear_force (df ! i))"
    "\<forall>n<length df. col_shear_force (df ! n) \<le> col_shear_force (df ! i)"
    "\<forall>n<i. col_shear_force (df ! n) < col_shear_force (df ! i)"
    by blast
  from x_at_idxmin_first[OF assms(2), of col_shear_force] obtain j where j:
    "j < length df" "x_at_idxmin df (map col_shear_force df) = Inr (col_x (df ! j))"
    "series_min (map col_shear_force df) = Num (col_shear_force (df ! j))"
    "\<forall>n<length df. col_shear_force (df ! j) \<le> col_shear_force (df ! n)"
    "\<forall>n<j. col_shear_force (df ! j) < col_shear_force (df ! n)"
    by blast
  from x_at_idxmax_first[OF assms(2), of col_bending_moment] obtain k where k:
    "k < length df" "x_at_idxmax df (map col_bending_moment df) = Inr (col_x (df ! k))"
    "series_max (map col_bending_moment df) = Num (col_bending_moment (df ! k))"
    "\<forall>n<length df. col_bending_moment (df ! n) \<le> col_bending_moment (df ! k)"
    "\<forall>n<k. col_bending_moment (df ! n) < col_bending_moment (df ! k)"
    by blast
  from zero_shear_location_total obtain z where z: "zero_shear_location str_f df = Inr z"
    by blast
  have "create_data_table str_f self =
      Inr (add_table_rows data_table_head df @ data_table_mid @
           fmt_f 2 (col_shear_force (df ! i)) @ '' kN (at x = '' @ fmt_f 1 (col_x (df ! i)) @
           '' m)\<newline>'' @
           ''    '' @ [BS] @ ''item '' @ [BS] @ ''textbf{Maximum Negative Shear Force:} '' @
           fmt_f 2 (col_shear_force (df ! j)) @ '' kN (at x = '' @ fmt_f 1 (col_x (df ! j)) @
           '' m)\<newline>'' @
           ''    '' @ [BS] @ ''item '' @ [BS] @ ''textbf{Maximum Bending Moment:} '' @
           fmt_f 2 (col_bending_moment (df ! k)) @ '' kN$'' @ [BS] @ ''cdot$m (at x = '' @
           fmt_f 1 (col_x (df ! k)) @
           '' m)\<newline>'' @
           ''    '' @ [BS] @ ''item '' @ [BS] @ ''textbf{Zero Shear Location:} x = '' @
           z @
           '' m (point of maximum moment)\<newline>'' @
           [BS] @ ''end{itemize}\<newline>'' @
           ''\<newline>'' @
           [BS] @ ''newpage\<newline>'')"
    unfolding create_data_table_def
    by (simp only: assms(1) option.case Let_def i(2,3) j(2,3) k(2,3) z sum.case fmt_scalar_def
          scalar.case)
  with i j k z show ?thesis by blast
qed

lemma create_data_table_zero_field:
  assumes "data self = Some df" and "df \<noteq> []"
  shows "\<exists>pre z. zero_shear_location str_f df = Inr z \<and>
    create_data_table str_f self =
      Inr (pre @ ''Zero Shear Location:} x = '' @ z @
           '' m (point of maximum moment)\<newline>'' @
           [BS] @ ''end{itemize}\<newline>'' @
           ''\<newline>'' @
           [BS] @ ''newpage\<newline>'')"
proof -
  from create_data_table_text[OF assms, of str_f] obtain i j k z where
    z: "zero_shear_location str_f df = Inr z" and
    eq: "create_data_table str_f self =
      Inr (add_table_rows data_table_head df @ data_table_mid @
           fmt_f 2 (col_shear_force (df ! i)) @ '' kN (at x = '' @ fmt_f 1 (col_x (df ! i)) @
           '' m)\<newline>'' @
           ''    '' @ [BS] @ ''item '' @ [BS] @ ''textbf{Maximum Negative Shear Force:} '' @
           fmt_f 2 (col_shear_force (df ! j)) @ '' kN (at x = '' @ fmt_f 1 (col_x (df ! j)) @
           '' m)\<newline>'' @
           ''    '' @ [BS] @ ''item '' @ [BS] @ ''textbf{Maximum Bending Moment:} '' @
           fmt_f 2 (col_bending_moment (df ! k)) @ '' kN$'' @ [BS] @ ''cdot$m (at x = '' @
           fmt_f 1 (col_x (df ! k)) @
           '' m)\<newline>'' @
           ''    '' @ [BS] @ ''item '' @ [BS] @ ''textbf{Zero Shear Location:} x = '' @
           z @
           '' m (point of maximum moment)\<newline>'' @
           [BS] @ ''end{itemize}\<newline>'' @
           ''\<newline>'' @
           [BS] @ ''newpage\<newline>'')"
    by blast
  define pre where "pre = add_table_rows data_table_head df @ data_table_mid @
           fmt_f 2 (col_shear_force (df ! i)) @ '' kN (at x = '' @ fmt_f 1 (col_x (df ! i)) @
           '' m)\<newline>'' @
           ''    '' @ [BS] @ ''item '' @ [BS] @ ''textbf{Maximum Negative Shear Force:} '' @
           fmt_f 2 (col_shear_force (df ! j)) @ '' kN (at x = '' @ fmt_f 1 (col_x (df ! j)) @
           '' m)\<newline>'' @
           ''    '' @ [BS] @ ''item '' @ [BS] @ ''textbf{Maximum Bending Moment:} '' @
           fmt_f 2 (col_bending_moment (df ! k)) @ '' kN$'' @ [BS] @ ''cdot$m (at x = '' @
           fmt_f 1 (col_x (df ! k)) @
           '' m)\<newline>'' @
           ''    '' @ [BS] @ ''item '' @ [BS] @ ''textbf{''"
  have "create_data_table str_f self =
      Inr (pre @ ''Zero Shear Location:} x = '' @ z @
           '' m (point of maximum moment)\<newline>'' @
           [BS] @ ''end{itemize}\<newline>'' @
           ''\<newline>'' @
           [BS] @ ''newpage\<newline>'')"
    unfolding eq pre_def by simp
  with z show ?thesis by blast
qed

lemma zero_shear_location_some_row:
  assumes "\<exists>r\<in>set df. col_shear_force r = 0"
  shows "\<exists>r\<in>set df. col_shear_force r = 0 \<and> zero_shear_location str_f df = Inr (str_f (col_x r))"
proof -
  from assms have "find (\<lambda>r. col_shear_force r = 0) df \<noteq> None"
    by (auto simp: find_None_iff)
  then obtain r where r: "find (\<lambda>r. col_shear_force r = 0) df = Some r" by auto
  then have "r \<in> set df" "col_shear_force r = 0"
    by (auto simp: find_Some_iff)
  with zero_shear_location_first[OF r] show ?thesis by blast
qed

lemma zero_shear_location_no_row:
  assumes "\<forall>r\<in>set df. col_shear_force r \<noteq> 0"
  shows "zero_shear_location str_f df = Inr ''N/A''"
  using assms by (intro zero_shear_location_none) (simp add: find_None_iff)

lemma zero_shear_location_at_index:
  assumes "i < length df" "col_shear_force (df ! i) = 0" "\<forall>j<i. col_shear_force (df ! j) \<noteq> 0"
  shows "zero_shear_location str_f df = Inr (str_f (col_x (df ! i)))"
proof -
  have "find (\<lambda>r. col_shear_force r = 0) df = Some (df ! i)"
    unfolding find_Some_iff using assms by blast
  then show ?thesis by (rule zero_shear_location_first)
qed

section \<open>Loading the table\<close>

text \<open>
  C9: for every non-empty table, the beam length stored by \<open>load_data\<close> is the maximum of
  the positions of all rows.
\<close>

theorem C9_beam_length_is_max_position:
  "df \<noteq> [] \<Longrightarrow>
   load_data self (Inr df) =
     Inr (self\<lparr>data := Some df, beam_length := Num (Max (col_x ` set df))\<rparr>)"
  by (simp add: load_data_def series_max_nonempty)

theorem C9_beam_length_witness:
  "[\<lparr>col_x = 0, col_shear_force = 50, col_bending_moment = 0\<rparr>,
    \<lparr>col_x = 4, col_shear_force = -50, col_bending_moment = 0\<rparr>,
    \<lparr>col_x = 2, col_shear_force = 0, col_bending_moment = 100\<rparr>] \<noteq> [] \<and>
   load_data (init_generator ''Force Table.xlsx'' ''beam.png'' ''Report'')
     (Inr [\<lparr>col_x = 0, col_shear_force = 50, col_bending_moment = 0\<rparr>,
           \<lparr>col_x = 4, col_shear_force = -50, col_bending_moment = 0\<rparr>,
           \<lparr>col_x = 2, col_shear_force = 0, col_bending_moment = 100\<rparr>]) =
     Inr \<lparr>excel_path = ''Force Table.xlsx'', beam_image_path = ''beam.png'',
          output_name = ''Report'',
          data = Some [\<lparr>col_x = 0, col_shear_force = 50, col_bending_moment = 0\<rparr>,
                       \<lparr>col_x = 4, col_shear_force = -50, col_bending_moment = 0\<rparr>,
                       \<lparr>col_x = 2, col_shear_force = 0, col_bending_moment = 100\<rparr>],
          beam_length = Num 4\<rparr>"
  using C9_beam_length_is_max_position
    [of "[\<lparr>col_x = 0, col_shear_force = 50, col_bending_moment = 0\<rparr>,
          \<lparr>col_x = 4, col_shear_force = -50, col_bending_moment = 0\<rparr>,
          \<lparr>col_x = 2, col_shear_force = 0, col_bending_moment = 100\<rparr>]"
        "init_generator ''Force Table.xlsx'' ''beam.png'' ''Report''"]
  by (simp add: init_generator_def)

text \<open>
  C3 (as the code has it): loading a table that parsed to zero rows does not fail.
  \<open>load_data\<close> returns normally, with the empty table stored and the beam length NaN.
\<close>

theorem C3_load_data_accepts_empty_table:
  "load_data self (Inr []) = Inr (self\<lparr>data := Some [], beam_length := NaN\<rparr>)"
  by (simp add: load_data_def series_max_def)

text \<open>
  C3 as stated fails: on the zero-row table the result of \<open>load_data\<close> is not an error.
\<close>

theorem C3_empty_table_counterexample:
  "\<not> isl (load_data
            (init_generator ''Force Table.xlsx'' ''simply_supported_beam.png''
               ''Beam_Analysis_Report'')
            (Inr []))"
  by (simp add: load_data_def)

section \<open>The data table section\<close>

text \<open>
  C6: for every non-empty table, the positions that the data table section reports for
  the maximum shear, the minimum shear and the maximum moment are the positions of rows
  \<open>i\<close>, \<open>j\<close>, \<open>k\<close> that hold these extremes, and every earlier row is strictly below
  (above, for the minimum) the extreme: on a tie the first row in row order is reported.
\<close>

theorem C6_extreme_positions_first_occurrence:
  assumes "data self = Some df" and "df \<noteq> []"
  shows "\<exists>i<length df. \<exists>j<length df. \<exists>k<length df. \<exists>z.
    (\<forall>n<length df. col_shear_force (df ! n) \<le> col_shear_force (df ! i)) \<and>
    (\<forall>n<i. col_shear_force (df ! n) < col_shear_force (df ! i)) \<and>
    (\<forall>n<length df. col_shear_force (df ! j) \<le> col_shear_force (df ! n)) \<and>
    (\<forall>n<j. col_shear_force (df ! j) < col_shear_force (df ! n)) \<and>
    (\<forall>n<length df. col_bending_moment (df ! n) \<le> col_bending_moment (df ! k)) \<and>
    (\<forall>n<k. col_bending_moment (df ! n) < col_bending_moment (df ! k)) \<and>
    zero_shear_location str_f df = Inr z \<and>
    create_data_table str_f self =
      Inr (add_table_rows data_table_head df @ data_table_mid @
           fmt_f 2 (col_shear_force (df ! i)) @ '' kN (at x = '' @ fmt_f 1 (col_x (df ! i)) @
           '' m)\<newline>'' @
           ''    '' @ [BS] @ ''item '' @ [BS] @ ''textbf{Maximum Negative Shear Force:} '' @
           fmt_f 2 (col_shear_force (df ! j)) @ '' kN (at x = '' @ fmt_f 1 (col_x (df ! j)) @
           '' m)\<newline>'' @
           ''    '' @ [BS] @ ''item '' @ [BS] @ ''textbf{Maximum Bending Moment:} '' @
           fmt_f 2 (col_bending_moment (df ! k)) @ '' kN$'' @ [BS] @ ''cdot$m (at x = '' @
           fmt_f 1 (col_x (df ! k)) @
           '' m)\<newline>'' @
           ''    '' @ [BS] @ ''item '' @ [BS] @ ''textbf{Zero Shear Location:} x = '' @
           z @
           '' m (point of maximum moment)\<newline>'' @
           [BS] @ ''end{itemize}\<newline>'' @
           ''\<newline>'' @
           [BS] @ ''newpage\<newline>'')"
  using assms by (rule create_data_table_text)

theorem C6_extreme_positions_witness:
  "data (\<lparr>excel_path = ''Force Table.xlsx'', beam_image_path = ''simply_supported_beam.png'',
      output_name = ''Beam_Analysis_Report'',
      data = Some [\<lparr>col_x = 0, col_shear_force = 50, col_bending_moment = 0\<rparr>,
                   \<lparr>col_x = 2, col_shear_force = 50, col_bending_moment = 100\<rparr>,
                   \<lparr>col_x = 4, col_shear_force = 50, col_bending_moment = 0\<rparr>],
      beam_length = Num 4\<rparr>) =
     Some [\<lparr>col_x = 0, col_shear_force = 50, col_bending_moment = 0\<rparr>,
     \<lparr>col_x = 2, col_shear_force = 50, col_bending_moment = 100\<rparr>,
     \<lparr>col_x = 4, col_shear_force = 50, col_bending_moment = 0\<rparr>] \<and>
   [\<lparr>col_x = 0, col_shear_force = 50, col_bending_moment = 0\<rparr>,
     \<lparr>col_x = 2, col_shear_force = 50, col_bending_moment = 100\<rparr>,
     \<lparr>col_x = 4, col_shear_force = 50, col_bending_moment = 0\<rparr>] \<noteq> [] \<and>
   (\<exists>i<length 
    [\<lparr>col_x = 0, col_shear_force = 50, col_bending_moment = 0\<rparr>,
     \<lparr>col_x = 2, col_shear_force = 50, col_bending_moment = 100\<rparr>,
     \<lparr>col_x = 4, col_shear_force = 50, col_bending_moment = 0\<rparr>]. \<exists>j<length 
    [\<lparr>col_x = 0, col_shear_force = 50, col_bending_moment = 0\<rparr>,
     \<lparr>col_x = 2, col_shear_force = 50, col_bending_moment = 100\<rparr>,
     \<lparr>col_x = 4, col_shear_force = 50, col_bending_moment = 0\<rparr>]. \<exists>k<length 
    [\<lparr>col_x = 0, col_shear_force = 50, col_bending_moment = 0\<rparr>,
     \<lparr>col_x = 2, col_shear_force = 50, col_bending_moment = 100\<rparr>,
     \<lparr>col_x = 4, col_shear_force = 50, col_bending_moment = 0\<rparr>]. \<exists>z.
    (\<forall>n<length 
    [\<lparr>col_x = 0, col_shear_force = 50, col_bending_moment = 0\<rparr>,
     \<lparr>col_x = 2, col_shear_force = 50, col_bending_moment = 100\<rparr>,
     \<lparr>col_x = 4, col_shear_force = 50, col_bending_moment = 0\<rparr>]. col_shear_force (
    [\<lparr>col_x = 0, col_shear_force = 50, col_bending_moment = 0\<rparr>,
     \<lparr>col_x = 2, col_shear_force = 50, col_bending_moment = 100\<rparr>,
     \<lparr>col_x = 4, col_shear_force = 50, col_bending_moment = 0\<rparr>] ! n) \<le> col_shear_force (
    [\<lparr>col_x = 0, col_shear_force = 50, col_bending_moment = 0\<rparr>,
     \<lparr>col_x = 2, col_shear_force = 50, col_bending_moment = 100\<rparr>,
     \<lparr>col_x = 4, col_shear_force = 50, col_bending_moment = 0\<rparr>] ! i)) \<and>
    (\<forall>n<i. col_shear_force (
    [\<lparr>col_x = 0, col_shear_force = 50, col_bending_moment = 0\<rparr>,
     \<lparr>col_x = 2, col_shear_force = 50, col_bending_moment = 100\<rparr>,
     \<lparr>col_x = 4, col_shear_force = 50, col_bending_moment = 0\<rparr>] ! n) < col_shear_force (
    [\<lparr>col_x = 0, col_shear_force = 50, col_bending_moment = 0\<rparr>,
     \<lparr>col_x = 2, col_shear_force = 50, col_bending_moment = 100\<rparr>,
     \<lparr>col_x = 4, col_shear_force = 50, col_bending_moment = 0\<rparr>] ! i)) \<and>
    (\<forall>n<length 
    [\<lparr>col_x = 0, col_shear_force = 50, col_bending_moment = 0\<rparr>,
     \<lparr>col_x = 2, col_shear_force = 50, col_bending_moment = 100\<rparr>,
     \<lparr>col_x = 4, col_shear_force = 50, col_bending_moment = 0\<rparr>]. col_shear_force (
    [\<lparr>col_x = 0, col_shear_force = 50, col_bending_moment = 0\<rparr>,
     \<lparr>col_x = 2, col_shear_force = 50, col_bending_moment = 100\<rparr>,
     \<lparr>col_x = 4, col_shear_force = 50, col_bending_moment = 0\<rparr>] ! j) \<le> col_shear_force (
    [\<lparr>col_x = 0, col_shear_force = 50, col_bending_moment = 0\<rparr>,
     \<lparr>col_x = 2, col_shear_force = 50, col_bending_moment = 100\<rparr>,
     \<lparr>col_x = 4, col_shear_force = 50, col_bending_moment = 0\<rparr>] ! n)) \<and>
    (\<forall>n<j. col_shear_force (
    [\<lparr>col_x = 0, col_shear_force = 50, col_bending_moment = 0\<rparr>,
     \<lparr>col_x = 2, col_shear_force = 50, col_bending_moment = 100\<rparr>,
     \<lparr>col_x = 4, col_shear_force = 50, col_bending_moment = 0\<rparr>] ! j) < col_shear_force (
    [\<lparr>col_x = 0, col_shear_force = 50, col_bending_moment = 0\<rparr>,
     \<lparr>col_x = 2, col_shear_force = 50, col_bending_moment = 100\<rparr>,
     \<lparr>col_x = 4, col_shear_force = 50, col_bending_moment = 0\<rparr>] ! n)) \<and>
    (\<forall>n<length 
    [\<lparr>col_x = 0, col_shear_force = 50, col_bending_moment = 0\<rparr>,
     \<lparr>col_x = 2, col_shear_force = 50, col_bending_moment = 100\<rparr>,
     \<lparr>col_x = 4, col_shear_force = 50, col_bending_moment = 0\<rparr>]. col_bending_moment (
    [\<lparr>col_x = 0, col_shear_force = 50, col_bending_moment = 0\<rparr>,
     \<lparr>col_x = 2, col_shear_force = 50, col_bending_moment = 100\<rparr>,
     \<lparr>col_x = 4, col_shear_force = 50, col_bending_moment = 0\<rparr>] ! n) \<le> col_bending_moment (
    [\<lparr>col_x = 0, col_shear_force = 50, col_bending_moment = 0\<rparr>,
     \<lparr>col_x = 2, col_shear_force = 50, col_bending_moment = 100\<rparr>,
     \<lparr>col_x = 4, col_shear_force = 50, col_bending_moment = 0\<rparr>] ! k)) \<and>
    (\<forall>n<k. col_bending_moment (
    [\<lparr>col_x = 0, col_shear_force = 50, col_bending_moment = 0\<rparr>,
     \<lparr>col_x = 2, col_shear_force = 50, col_bending_moment = 100\<rparr>,
     \<lparr>col_x = 4, col_shear_force = 50, col_bending_moment = 0\<rparr>] ! n) < col_bending_moment (
    [\<lparr>col_x = 0, col_shear_force = 50, col_bending_moment = 0\<rparr>,
     \<lparr>col_x = 2, col_shear_force = 50, col_bending_moment = 100\<rparr>,
     \<lparr>col_x = 4, col_shear_force = 50, col_bending_moment = 0\<rparr>] ! k)) \<and>
    zero_shear_location (fmt_f 3) 
    [\<lparr>col_x = 0, col_shear_force = 50, col_bending_moment = 0\<rparr>,
     \<lparr>col_x = 2, col_shear_force = 50, col_bending_moment = 100\<rparr>,
     \<lparr>col_x = 4, col_shear_force = 50, col_bending_moment = 0\<rparr>] = Inr z \<and>
    create_data_table (fmt_f 3) 
    (\<lparr>excel_path = ''Force Table.xlsx'', beam_image_path = ''simply_supported_beam.png'',
      output_name = ''Beam_Analysis_Report'',
      data = Some [\<lparr>col_x = 0, col_shear_force = 50, col_bending_moment = 0\<rparr>,
                   \<lparr>col_x = 2, col_shear_force = 50, col_bending_moment = 100\<rparr>,
                   \<lparr>col_x = 4, col_shear_force = 50, col_bending_moment = 0\<rparr>],
      beam_length = Num 4\<rparr>) =
      Inr (add_table_rows data_table_head 
    [\<lparr>col_x = 0, col_shear_force = 50, col_bending_moment = 0\<rparr>,
     \<lparr>col_x = 2, col_shear_force = 50, col_bending_moment = 100\<rparr>,
     \<lparr>col_x = 4, col_shear_force = 50, col_bending_moment = 0\<rparr>] @ data_table_mid @
           fmt_f 2 (col_shear_force (
    [\<lparr>col_x = 0, col_shear_force = 50, col_bending_moment = 0\<rparr>,
     \<lparr>col_x = 2, col_shear_force = 50, col_bending_moment = 100\<rparr>,
     \<lparr>col_x = 4, col_shear_force = 50, col_bending_moment = 0\<rparr>] ! i)) @ '' kN (at x = '' @ fmt_f 1 (col_x (
    [\<lparr>col_x = 0, col_shear_force = 50, col_bending_moment = 0\<rparr>,
     \<lparr>col_x = 2, col_shear_force = 50, col_bending_moment = 100\<rparr>,
     \<lparr>col_x = 4, col_shear_force = 50, col_bending_moment = 0\<rparr>] ! i)) @
           '' m)\<newline>'' @
           ''    '' @ [BS] @ ''item '' @ [BS] @ ''textbf{Maximum Negative Shear Force:} '' @
           fmt_f 2 (col_shear_force (
    [\<lparr>col_x = 0, col_shear_force = 50, col_bending_moment = 0\<rparr>,
     \<lparr>col_x = 2, col_shear_force = 50, col_bending_moment = 100\<rparr>,
     \<lparr>col_x = 4, col_shear_force = 50, col_bending_moment = 0\<rparr>] ! j)) @ '' kN (at x = '' @ fmt_f 1 (col_x (
    [\<lparr>col_x = 0, col_shear_force = 50, col_bending_moment = 0\<rparr>,
     \<lparr>col_x = 2, col_shear_force = 50, col_bending_moment = 100\<rparr>,
     \<lparr>col_x = 4, col_shear_force = 50, col_bending_moment = 0\<rparr>] ! j)) @
           '' m)\<newline>'' @
           ''    '' @ [BS] @ ''item '' @ [BS] @ ''textbf{Maximum Bending Moment:} '' @
           fmt_f 2 (col_bending_moment (
    [\<lparr>col_x = 0, col_shear_force = 50, col_bending_moment = 0\<rparr>,
     \<lparr>col_x = 2, col_shear_force = 50, col_bending_moment = 100\<rparr>,
     \<lparr>col_x = 4, col_shear_force = 50, col_bending_moment = 0\<rparr>] ! k)) @ '' kN$'' @ [BS] @ ''cdot$m (at x = '' @
           fmt_f 1 (col_x (
    [\<lparr>col_x = 0, col_shear_force = 50, col_bending_moment = 0\<rparr>,
     \<lparr>col_x = 2, col_shear_force = 50, col_bending_moment = 100\<rparr>,
     \<lparr>col_x = 4, col_shear_force = 50, col_bending_moment = 0\<rparr>] ! k)) @
           '' m)\<newline>'' @
           ''    '' @ [BS] @ ''item '' @ [BS] @ ''textbf{Zero Shear Location:} x = '' @
           z @
           '' m (point of maximum moment)\<newline>'' @
           [BS] @ ''end{itemize}\<newline>'' @
           ''\<newline>'' @
           [BS] @ ''newpage\<newline>''))"
proof -
  have h1: "data (\<lparr>excel_path = ''Force Table.xlsx'', beam_image_path = ''simply_supported_beam.png'',
      output_name = ''Beam_Analysis_Report'',
      data = Some [\<lparr>col_x = 0, col_shear_force = 50, col_bending_moment = 0\<rparr>,
                   \<lparr>col_x = 2, col_shear_force = 50, col_bending_moment = 100\<rparr>,
                   \<lparr>col_x = 4, col_shear_force = 50, col_bending_moment = 0\<rparr>],
      beam_length = Num 4\<rparr>) =
     Some [\<lparr>col_x = 0, col_shear_force = 50, col_bending_moment = 0\<rparr>,
     \<lparr>col_x = 2, col_shear_force = 50, col_bending_moment = 100\<rparr>,
     \<lparr>col_x = 4, col_shear_force = 50, col_bending_moment = 0\<rparr>]"
    by simp
  have h2: "[\<lparr>col_x = 0, col_shear_force = 50, col_bending_moment = 0\<rparr>,
     \<lparr>col_x = 2, col_shear_force = 50, col_bending_moment = 100\<rparr>,
     \<lparr>col_x = 4, col_shear_force = 50, col_bending_moment = 0\<rparr>] \<noteq> []"
    by simp
  show ?thesis
    by (rule conjI[OF h1 conjI[OF h2 C6_extreme_positions_first_occurrence[OF h1 h2]]])
qed

end
